theory Spec2Isabelle
  imports Main "HOL-Library.AList"
begin

section \<open>The logger\<close>

text \<open>
  \<^verbatim>\<open>LogType\<close> is the union of the five string literals; \<^verbatim>\<open>log_types\<close> is the object
  that gives each level its string.
\<close>

datatype LogType = INFO | WARN | ERROR | THROW | DEBUG

fun log_types :: "LogType \<Rightarrow> string" where
  "log_types INFO = ''INFO''"
| "log_types WARN = ''WARN''"
| "log_types ERROR = ''ERROR''"
| "log_types DEBUG = ''DEBUG''"
| "log_types THROW = ''THROW''"

text \<open>What \<^verbatim>\<open>new Date()\<close> gives: the four readings that \<^verbatim>\<open>log_header\<close> takes from it.\<close>

record date =
  getHours :: nat
  getMinutes :: nat
  getSeconds :: nat
  getMilliseconds :: nat

text \<open>The decimal digits of a non-negative integer, as a template literal prints a number.\<close>

fun number_to_string :: "nat \<Rightarrow> string" where
  "number_to_string n =
     (if n < 10 then [''0123456789'' ! n]
      else number_to_string (n div 10) @ [''0123456789'' ! (n mod 10)])"

declare number_to_string.simps [simp del]

definition log_header :: "LogType \<Rightarrow> date \<Rightarrow> string" where
  "log_header ty d =
     ''['' @ log_types ty @ '': '' @ number_to_string (getHours d) @ '':'' @
     number_to_string (getMinutes d) @ '':'' @ number_to_string (getSeconds d) @ '':'' @
     number_to_string (getMilliseconds d) @ '']''"

datatype error = Error string | TypeError

definition and_then :: "error + 'a \<Rightarrow> ('a \<Rightarrow> error + 'b) \<Rightarrow> error + 'b" where
  "and_then r f = (case r of Inl e \<Rightarrow> Inl e | Inr x \<Rightarrow> f x)"

text \<open>
  An argument of a log call is any JavaScript value (\<^verbatim>\<open>Array<unknown>\<close>). \<^verbatim>\<open>log\<close> asks
  three things of it: whether \<^verbatim>\<open>typeof\<close> gives \<^verbatim>\<open>'object'\<close>, what \<^verbatim>\<open>JSON.stringify\<close>
  does on an object, and what the string conversion of \<^verbatim>\<open>Array.prototype.join\<close> does on
  a value that is not one.
  \<^item> \<open>Obj r\<close> is a value whose \<^verbatim>\<open>typeof\<close> is \<^verbatim>\<open>'object'\<close>, with what \<^verbatim>\<open>JSON.stringify\<close> does
    on it: \<open>Inr s\<close> when it returns \<open>s\<close> (the empty string when it returns \<^verbatim>\<open>undefined\<close>,
    which the join prints so), \<open>Inl e\<close> when it raises \<open>e\<close> (a \<^verbatim>\<open>TypeError\<close> on a cyclic
    object and on an object that holds a BigInt).
  \<^item> \<open>Prim Symbol\<close> is a Symbol, which the string conversion refuses with a \<^verbatim>\<open>TypeError\<close>.
  \<^item> \<open>Prim (Str s)\<close> is any other value (a string, a number, a boolean, \<^verbatim>\<open>undefined\<close>, a
    function), carried as the string it converts to.
\<close>

datatype prim = Str string | Symbol

datatype arg = Prim prim | Obj "error + string"

text \<open>\<^verbatim>\<open>Array.prototype.map\<close>: the callback runs on the elements in order; the first raise ends it.\<close>

fun array_map :: "('a \<Rightarrow> error + 'b) \<Rightarrow> 'a list \<Rightarrow> error + 'b list" where
  "array_map f [] = Inr []"
| "array_map f (x # xs) =
     and_then (f x) (\<lambda>y. and_then (array_map f xs) (\<lambda>ys. Inr (y # ys)))"

text \<open>The callback of \<^verbatim>\<open>log\<close>: \<^verbatim>\<open>typeof arg === 'object' ? JSON.stringify(arg) : arg\<close>.\<close>

fun stringify_objects :: "arg \<Rightarrow> error + prim" where
  "stringify_objects (Obj r) = and_then r (\<lambda>json. Inr (Str json))"
| "stringify_objects (Prim v) = Inr v"

fun ToString :: "prim \<Rightarrow> error + string" where
  "ToString (Str s) = Inr s"
| "ToString Symbol = Inl TypeError"

fun join_strings :: "string \<Rightarrow> string list \<Rightarrow> string" where
  "join_strings sep [] = []"
| "join_strings sep [x] = x"
| "join_strings sep (x # y # ys) = x @ sep @ join_strings sep (y # ys)"

text \<open>\<^verbatim>\<open>Array.prototype.join\<close>: every element is converted to a string, then they are joined.\<close>

definition join :: "string \<Rightarrow> prim list \<Rightarrow> error + string" where
  "join sep xs = and_then (array_map ToString xs) (\<lambda>strs. Inr (join_strings sep strs))"

text \<open>
  What the program does to the world outside it, in the order it does it: the lines it
  prints and the calls it makes to GLib and Gio.
\<close>

datatype effect =
    ConsoleLog string string
  | BusOwnName nat
  | BusUnownName nat
  | TimeoutAddSeconds nat
  | SourceRemove nat
  | Export
  | Unexport
  | EmitSignal string "string list"
  | DBusMenuModelGet string

text \<open>
  \<^verbatim>\<open>log\<close>: the date is the one \<^verbatim>\<open>new Date()\<close> returns inside \<^verbatim>\<open>log_header\<close>; the
  console is the list of effects so far.
\<close>

definition log :: "date \<Rightarrow> LogType \<Rightarrow> arg list \<Rightarrow> effect list \<Rightarrow> error + effect list" where
  "log d ty args out =
     (let header = log_header ty d
      in and_then (array_map stringify_objects args) (\<lambda>mapped.
         and_then (join '' '' mapped) (\<lambda>concat_args.
           case ty of
             INFO \<Rightarrow> Inr (out @ [ConsoleLog header concat_args])
           | WARN \<Rightarrow> Inr (out @ [ConsoleLog header concat_args])
           | ERROR \<Rightarrow> Inr (out @ [ConsoleLog header concat_args])
           | DEBUG \<Rightarrow> Inr (out @ [ConsoleLog header concat_args])
           | THROW \<Rightarrow> Inl (Error (header @ '' '' @ concat_args)))))"

definition info :: "date \<Rightarrow> arg list \<Rightarrow> effect list \<Rightarrow> error + effect list" where
  "info d args out = log d INFO args out"

definition warn :: "date \<Rightarrow> arg list \<Rightarrow> effect list \<Rightarrow> error + effect list" where
  "warn d args out = log d WARN args out"

definition error :: "date \<Rightarrow> arg list \<Rightarrow> effect list \<Rightarrow> error + effect list" where
  "error d args out = log d ERROR args out"

definition debug :: "date \<Rightarrow> arg list \<Rightarrow> effect list \<Rightarrow> error + effect list" where
  "debug d args out = log d DEBUG args out"

definition throw_err :: "date \<Rightarrow> arg list \<Rightarrow> effect list \<Rightarrow> error + effect list" where
  "throw_err d args out = log d THROW args out"


section \<open>The registrar\<close>

text \<open>
  The private fields of \<^verbatim>\<open>DBusRegistrar\<close>. The identifiers are the unsigned integers GLib
  hands out, with 0 for "none". \<^verbatim>\<open>_window_map\<close> is a JavaScript \<^verbatim>\<open>Map\<close>: an association
  list in insertion order, its keys the window identifiers. \<^verbatim>\<open>world\<close> is the trace of
  effects.
\<close>

record window =
  window_id :: nat
  menu_object_path :: string

record DBusRegistrar =
  bus_id :: nat
  service_id :: nat
  window_map :: "(nat \<times> window) list"
  world :: "effect list"

text \<open>
  The clock gives the reading of \<^verbatim>\<open>new Date()\<close> at each point of the trace, so that two
  log calls need not read the same time.
\<close>

type_synonym clock = "nat \<Rightarrow> date"

definition Logger ::
  "(date \<Rightarrow> arg list \<Rightarrow> effect list \<Rightarrow> error + effect list) \<Rightarrow> clock \<Rightarrow> arg list \<Rightarrow>
   DBusRegistrar \<Rightarrow> error + DBusRegistrar" where
  "Logger f clk args s =
     and_then (f (clk (length (world s))) args (world s)) (\<lambda>w. Inr (s\<lparr>world := w\<rparr>))"

definition effect :: "effect \<Rightarrow> DBusRegistrar \<Rightarrow> DBusRegistrar" where
  "effect e s = s\<lparr>world := world s @ [e]\<rparr>"

fun for_each :: "('a \<Rightarrow> 's \<Rightarrow> error + 's) \<Rightarrow> 'a list \<Rightarrow> 's \<Rightarrow> error + 's" where
  "for_each body [] s = Inr s"
| "for_each body (x # xs) s = and_then (body x s) (for_each body xs)"

text \<open>
  The constructor: the fields at their initialisers, and the one line it logs. The path
  is the one GLib resolves for the interface file.
\<close>

definition constructor :: "clock \<Rightarrow> string \<Rightarrow> error + DBusRegistrar" where
  "constructor clk path =
     Logger info clk [Prim (Str (''Path: '' @ path))]
       \<lparr>bus_id = 0, service_id = 0, window_map = [], world = []\<rparr>"

text \<open>
  \<^verbatim>\<open>_dbus\<close> is read-only and assigned by the constructor, so the test \<^verbatim>\<open>if (this._dbus)\<close>
  of \<^verbatim>\<open>release_bus\<close> always succeeds and the object is always unexported. No field is
  assigned.
\<close>

definition release_bus :: "clock \<Rightarrow> DBusRegistrar \<Rightarrow> error + DBusRegistrar" where
  "release_bus clk s =
     and_then (Logger warn clk [Prim (Str ''Releasing bus'')] s) (\<lambda>s.
       let s = (if service_id s > 0 then effect (SourceRemove (service_id s)) s else s);
           s = (if bus_id s > 0 then effect (BusUnownName (bus_id s)) s else s)
       in Inr (effect Unexport s))"

text \<open>\<^verbatim>\<open>owner_id\<close> is the identifier \<^verbatim>\<open>Gio.bus_own_name\<close> returns.\<close>

definition acquire_bus :: "clock \<Rightarrow> nat \<Rightarrow> DBusRegistrar \<Rightarrow> error + DBusRegistrar" where
  "acquire_bus clk owner_id s =
     and_then (release_bus clk s) (\<lambda>s.
     and_then (Logger info clk [Prim (Str ''Acquiring bus'')] s) (\<lambda>s.
       let s = (effect (BusOwnName owner_id) s)\<lparr>bus_id := owner_id\<rparr>
       in Logger info clk [Prim (Str (''Bus ID: '' @ number_to_string (bus_id s)))] s))"

definition on_bus_acquired :: "clock \<Rightarrow> string \<Rightarrow> DBusRegistrar \<Rightarrow> error + DBusRegistrar" where
  "on_bus_acquired clk name s =
     and_then (Logger info clk [Prim (Str ''Bus acquired''), Prim (Str name)] s) (\<lambda>s.
       Inr (effect Export s))"

text \<open>\<^verbatim>\<open>source_id\<close> is the identifier \<^verbatim>\<open>GLib.timeout_add_seconds\<close> returns.\<close>

definition on_name_acquired ::
  "clock \<Rightarrow> string \<Rightarrow> nat \<Rightarrow> DBusRegistrar \<Rightarrow> error + DBusRegistrar" where
  "on_name_acquired clk name source_id s =
     and_then (Logger info clk [Prim (Str ''Bus name acquired''), Prim (Str name)] s) (\<lambda>s.
       Inr ((effect (TimeoutAddSeconds source_id) s)\<lparr>service_id := source_id\<rparr>))"

definition on_name_lost :: "clock \<Rightarrow> string \<Rightarrow> DBusRegistrar \<Rightarrow> error + DBusRegistrar" where
  "on_name_lost clk name s =
     and_then (Logger error clk [Prim (Str ''Bus name lost''), Prim (Str name)] s) (\<lambda>s.
       let s = (if service_id s > 0 then effect (SourceRemove (service_id s)) s else s)
       in Inr (s\<lparr>service_id := 0\<rparr>))"

definition is_acquired :: "DBusRegistrar \<Rightarrow> bool" where
  "is_acquired s = (bus_id s > 0 \<and> service_id s > 0)"

definition emit_signal :: "string \<Rightarrow> string list \<Rightarrow> DBusRegistrar \<Rightarrow> DBusRegistrar" where
  "emit_signal name params s = effect (EmitSignal name params) s"

definition dbus_log ::
  "string \<Rightarrow> string \<Rightarrow> string \<Rightarrow> DBusRegistrar \<Rightarrow> error + DBusRegistrar" where
  "dbus_log ty timestamp message s =
     (if \<not> is_acquired s then Inr s
      else Inr (emit_signal ''Log'' [ty, timestamp, message] s))"

text \<open>
  The menu model \<^verbatim>\<open>Gio.DBusMenuModel.get\<close> returns: its conversion to a string, its
  number of items, and for each item the string of \<^verbatim>\<open>get_item_attribute_value(i, null, null)\<close>.
\<close>

record DBusMenuModel =
  to_string :: string
  get_n_items :: nat
  get_item_attribute_value :: "nat \<Rightarrow> string"

definition RegisterWindow ::
  "clock \<Rightarrow> DBusMenuModel \<Rightarrow> nat \<Rightarrow> string \<Rightarrow> DBusRegistrar \<Rightarrow> error + DBusRegistrar" where
  "RegisterWindow clk mm wid path s =
     and_then (Logger info clk [Prim (Str (''Registering window: '' @ number_to_string wid))] s) (\<lambda>s.
     and_then (Logger info clk [Prim (Str (''Menu Object Path: '' @ path))] s) (\<lambda>s.
     and_then (if wid \<in> fst ` set (window_map s)
               then Logger warn clk [Prim (Str ''Window already registered'')] s else Inr s) (\<lambda>s.
     and_then (Inr (effect (DBusMenuModelGet path) s)) (\<lambda>s.
     and_then (Logger info clk [Prim (Str (''Menu Model: '' @ to_string mm))] s) (\<lambda>s.
     and_then (Logger info clk
                 [Prim (Str (''Menu Model: '' @ number_to_string (get_n_items mm)))] s) (\<lambda>s.
       let items = get_n_items mm
       in for_each
            (\<lambda>i. Logger info clk [Prim (Str (''Item: '' @ get_item_attribute_value mm i))])
            [0..<items] s))))))"

definition UnregisterWindow :: "clock \<Rightarrow> nat \<Rightarrow> DBusRegistrar \<Rightarrow> error + DBusRegistrar" where
  "UnregisterWindow clk wid s =
     and_then (Logger info clk [Prim (Str (''Unregistering window: '' @ number_to_string wid))] s) (\<lambda>s.
       if \<not> wid \<in> fst ` set (window_map s)
       then Logger warn clk [Prim (Str ''Window not registered'')] s
       else Inr (s\<lparr>window_map := AList.delete wid (window_map s)\<rparr>))"

record menu =
  service :: string
  menuObjectPath :: string

definition GetMenuForWindow ::
  "clock \<Rightarrow> nat \<Rightarrow> DBusRegistrar \<Rightarrow> error + (menu \<times> DBusRegistrar)" where
  "GetMenuForWindow clk wid s =
     and_then (Logger info clk [Prim (Str (''Getting menu for window: '' @ number_to_string wid))] s)
       (\<lambda>s. Inr (\<lparr>service = [], menuObjectPath = []\<rparr>, s))"

text \<open>
  The loop of \<^verbatim>\<open>GetWindowList\<close> binds \<^verbatim>\<open>menu_object_path\<close> to the value of the entry, an
  object, which string concatenation prints as \<^verbatim>\<open>[object Object]\<close>.
\<close>

definition GetWindowList :: "clock \<Rightarrow> DBusRegistrar \<Rightarrow> error + (nat list \<times> DBusRegistrar)" where
  "GetWindowList clk s =
     and_then (Logger info clk [Prim (Str ''Getting window list'')] s) (\<lambda>s.
     and_then (for_each
                 (\<lambda>(wid, w). Logger info clk
                    [Prim (Str (''Window: '' @ number_to_string wid @ '' - '' @ ''[object Object]''))])
                 (window_map s) s) (\<lambda>s.
       Inr (map fst (window_map s), s)))"

definition emmit_service_started :: "DBusRegistrar \<Rightarrow> DBusRegistrar" where
  "emmit_service_started s = emit_signal ''service_running'' [''GGGM Service running''] s"


section \<open>Definitions for the proofs\<close>

text \<open>
  An argument that \<^verbatim>\<open>log\<close> can turn into a string: an object on which \<^verbatim>\<open>JSON.stringify\<close>
  returns, or a value that is neither an object nor a Symbol; and the string it becomes.
\<close>

fun convertible :: "arg \<Rightarrow> bool" where
  "convertible (Obj (Inr json)) = True"
| "convertible (Obj (Inl e)) = False"
| "convertible (Prim (Str s)) = True"
| "convertible (Prim Symbol) = False"


text \<open>The registrar after the strings \<open>strs\<close> have been printed on one line at level \<open>ty\<close>.\<close>

definition printed :: "LogType \<Rightarrow> clock \<Rightarrow> string list \<Rightarrow> DBusRegistrar \<Rightarrow> DBusRegistrar" where
  "printed ty clk strs s =
     effect (ConsoleLog (log_header ty (clk (length (world s)))) (join_strings '' '' strs)) s"

text \<open>The fields of the registrar are the same in both states; only the trace may differ.\<close>

definition frame :: "DBusRegistrar \<Rightarrow> DBusRegistrar \<Rightarrow> bool" where
  "frame s s' =
     (bus_id s' = bus_id s \<and> service_id s' = service_id s \<and> window_map s' = window_map s)"


section \<open>Sequencing, effects and log calls\<close>

lemma and_then_Inr [simp]: "and_then (Inr x) f = f x"
  by (simp add: and_then_def)

lemma and_then_Inl [simp]: "and_then (Inl e) f = Inl e"
  by (simp add: and_then_def)

lemma effect_fields [simp]:
  "bus_id (effect e s) = bus_id s"
  "service_id (effect e s) = service_id s"
  "window_map (effect e s) = window_map s"
  "world (effect e s) = world s @ [e]"
  by (simp_all add: effect_def)

lemma printed_fields [simp]:
  "bus_id (printed ty clk strs s) = bus_id s"
  "service_id (printed ty clk strs s) = service_id s"
  "window_map (printed ty clk strs s) = window_map s"
  "world (printed ty clk strs s) =
     world s @ [ConsoleLog (log_header ty (clk (length (world s)))) (join_strings '' '' strs)]"
  by (simp_all add: printed_def)






text \<open>
  An argument that is not convertible makes \<^verbatim>\<open>log\<close> raise at every level: the map and the
  join run before the switch.
\<close>

lemma array_map_raises:
  "\<not> (\<forall>a\<in>set args. convertible a) \<Longrightarrow>
   (\<exists>e. array_map stringify_objects args = Inl e) \<or>
   (\<exists>mapped. array_map stringify_objects args = Inr mapped \<and> Symbol \<in> set mapped)"
proof (induction args)
  case Nil
  then show ?case by simp
next
  case (Cons a args)
  show ?case
  proof (cases "stringify_objects a")
    case (Inl e)
    then show ?thesis by simp
  next
    case (Inr v)
    show ?thesis
    proof (cases "convertible a")
      case True
      with Cons.prems have "\<not> (\<forall>a\<in>set args. convertible a)"
        by simp
      from Cons.IH [OF this] Inr show ?thesis
        by auto
    next
      case False
      with Inr have "v = Symbol"
        by (cases a rule: convertible.cases) auto
      with Inr show ?thesis
        by (cases "array_map stringify_objects args") auto
    qed
  qed
qed

lemma array_map_ToString_Symbol:
  "Symbol \<in> set mapped \<Longrightarrow> \<exists>e. array_map ToString mapped = Inl e"
proof (induction mapped)
  case Nil
  then show ?case by simp
next
  case (Cons v mapped)
  show ?case
  proof (cases v)
    case (Str s)
    with Cons obtain e where "array_map ToString mapped = Inl e"
      by auto
    with Str show ?thesis by simp
  next
    case Symbol
    then show ?thesis by simp
  qed
qed

lemma log_raises_unless_convertible:
  assumes "\<not> (\<forall>a\<in>set args. convertible a)"
  shows "\<exists>e. log d ty args out = Inl e"
proof -
  from array_map_raises [OF assms] show ?thesis
  proof
    assume "\<exists>e. array_map stringify_objects args = Inl e"
    then show ?thesis
      by (auto simp: log_def)
  next
    assume "\<exists>mapped. array_map stringify_objects args = Inr mapped \<and> Symbol \<in> set mapped"
    then obtain mapped where m: "array_map stringify_objects args = Inr mapped"
        "Symbol \<in> set mapped"
      by blast
    from array_map_ToString_Symbol [OF m(2)] obtain e where "array_map ToString mapped = Inl e"
      by blast
    with m(1) show ?thesis
      by (simp add: log_def join_def)
  qed
qed

text \<open>The registrar only logs at the levels INFO, WARN and ERROR, which print and return.\<close>

lemma Logger_info [simp]:
  "Logger info clk [Prim (Str a)] s = Inr (printed INFO clk [a] s)"
  "Logger info clk [Prim (Str a), Prim (Str b)] s = Inr (printed INFO clk [a, b] s)"
  by (simp_all add: Logger_def info_def log_def join_def printed_def effect_def)

lemma Logger_warn [simp]:
  "Logger warn clk [Prim (Str a)] s = Inr (printed WARN clk [a] s)"
  by (simp add: Logger_def warn_def log_def join_def printed_def effect_def)

lemma Logger_error [simp]:
  "Logger error clk [Prim (Str a), Prim (Str b)] s = Inr (printed ERROR clk [a, b] s)"
  by (simp add: Logger_def error_def log_def join_def printed_def effect_def)

lemma frame_and_then:
  assumes "\<exists>s1. m = Inr s1 \<and> frame s s1"
    and "\<And>s1. \<exists>s2. f s1 = Inr s2 \<and> frame s1 s2"
  shows "\<exists>s2. and_then m f = Inr s2 \<and> frame s s2"
proof -
  obtain s1 where s1: "m = Inr s1" "frame s s1"
    using assms(1) by blast
  obtain s2 where s2: "f s1 = Inr s2" "frame s1 s2"
    using assms(2) by blast
  show ?thesis using s1 s2 by (simp add: frame_def)
qed

lemma for_each_frame:
  assumes "\<And>x s. \<exists>s'. body x s = Inr s' \<and> frame s s'"
  shows "\<exists>s'. for_each body xs s = Inr s' \<and> frame s s'"
proof (induction xs arbitrary: s)
  case Nil
  show ?case by (simp add: frame_def)
next
  case (Cons x xs)
  obtain s1 where s1: "body x s = Inr s1" "frame s s1"
    using assms by blast
  obtain s2 where s2: "for_each body xs s1 = Inr s2" "frame s1 s2"
    using Cons.IH by blast
  show ?case using s1 s2 by (simp add: frame_def)
qed


section \<open>The bus lifecycle\<close>

lemma constructor_new [simp]:
  "constructor clk p =
     Inr (printed INFO clk [''Path: '' @ p]
            \<lparr>bus_id = 0, service_id = 0, window_map = [], world = []\<rparr>)"
  by (simp add: constructor_def)

lemma release_bus_result:
  "release_bus clk s =
     Inr (s\<lparr>world := world s @
            [ConsoleLog (log_header WARN (clk (length (world s)))) ''Releasing bus''] @
            (if service_id s > 0 then [SourceRemove (service_id s)] else []) @
            (if bus_id s > 0 then [BusUnownName (bus_id s)] else []) @ [Unexport]\<rparr>)"
  by (simp add: release_bus_def Let_def printed_def effect_def)

text \<open>\<^verbatim>\<open>release_bus\<close> returns from every state, and assigns to no field.\<close>

lemma release_bus_frame: "\<exists>s'. release_bus clk s = Inr s' \<and> frame s s'"
  by (simp add: release_bus_result frame_def)

lemma release_bus_new:
  "constructor clk p = Inr s \<Longrightarrow>
   \<exists>s'. release_bus clk s = Inr s' \<and> bus_id s' = 0 \<and> service_id s' = 0"
  by (auto simp: release_bus_result)

lemma acquire_bus_result:
  "\<exists>s'. acquire_bus clk owner_id s = Inr s' \<and> bus_id s' = owner_id \<and>
     service_id s' = service_id s \<and> window_map s' = window_map s"
proof -
  obtain s1 where s1: "release_bus clk s = Inr s1" "frame s s1"
    using release_bus_frame by blast
  then show ?thesis
    by (simp add: acquire_bus_def Let_def frame_def)
qed

lemma on_bus_acquired_frame: "\<exists>s'. on_bus_acquired clk name s = Inr s' \<and> frame s s'"
  by (simp add: on_bus_acquired_def frame_def)

lemma on_name_acquired_result:
  "\<exists>s'. on_name_acquired clk name source_id s = Inr s' \<and> bus_id s' = bus_id s \<and>
     service_id s' = source_id \<and> window_map s' = window_map s"
  by (simp add: on_name_acquired_def)

text \<open>Losing the name does reset the timer identifier, after removing the source.\<close>

lemma on_name_lost_resets:
  "\<exists>s'. on_name_lost clk name s = Inr s' \<and> service_id s' = 0 \<and> \<not> is_acquired s'"
  by (simp add: on_name_lost_def Let_def is_acquired_def)

lemma is_acquired_iff: "is_acquired s \<longleftrightarrow> bus_id s \<noteq> 0 \<and> service_id s \<noteq> 0"
  by (simp add: is_acquired_def)

lemma is_acquired_constructor: "constructor clk p = Inr s \<Longrightarrow> \<not> is_acquired s"
  by (auto simp: is_acquired_def)


section \<open>The window registry\<close>

lemma RegisterWindow_frame:
  "\<exists>s'. RegisterWindow clk mm wid path s = Inr s' \<and> frame s s'"
  unfolding RegisterWindow_def Let_def
  by (intro frame_and_then for_each_frame) (simp_all add: frame_def)

lemma GetWindowList_frame:
  "\<exists>s'. GetWindowList clk s = Inr (map fst (window_map s), s') \<and> frame s s'"
proof -
  let ?body = "\<lambda>(wid, w::window). Logger info clk
      [Prim (Str (''Window: '' @ number_to_string wid @ '' - '' @ ''[object Object]''))]"
  let ?s1 = "printed INFO clk [''Getting window list''] s"
  have "\<exists>s'. for_each ?body (window_map ?s1) ?s1 = Inr s' \<and> frame ?s1 s'"
    by (rule for_each_frame) (simp add: frame_def split: prod.split)
  then obtain s' where "for_each ?body (window_map ?s1) ?s1 = Inr s'" "frame ?s1 s'"
    by blast
  then show ?thesis
    unfolding GetWindowList_def by (simp add: frame_def)
qed

text \<open>The keys of a \<^verbatim>\<open>Map\<close> are distinct, and \<^verbatim>\<open>UnregisterWindow\<close> keeps them so.\<close>

lemma UnregisterWindow_distinct:
  "distinct (map fst (window_map s)) \<Longrightarrow> UnregisterWindow clk wid s = Inr s' \<Longrightarrow>
   distinct (map fst (window_map s'))"
  by (auto simp: UnregisterWindow_def distinct_delete split: if_splits)

lemma length_delete_present:
  assumes "distinct (map fst al)" and "k \<in> fst ` set al"
  shows "length (AList.delete k al) + 1 = length al"
proof -
  have "length (AList.delete k al) = length (removeAll k (map fst al))"
    by (simp add: delete_keys [symmetric])
  also have "\<dots> = length (remove1 k (map fst al))"
    using assms(1) by (simp add: distinct_remove1_removeAll)
  also have "\<dots> = length al - 1"
    using assms(2) by (simp add: length_remove1)
  finally show ?thesis
    using assms(2) by (cases al) auto
qed


section \<open>The claims\<close>

text \<open>
  C1: after \<^verbatim>\<open>RegisterWindow(window_id, menu_object_path)\<close> the identifier is in the
  result of \<^verbatim>\<open>GetWindowList()\<close> exactly once. The code does not do this: \<^verbatim>\<open>RegisterWindow\<close>
  never stores the mapping, so on a new registrar, for every identifier and path, it
  returns and the list read next is empty.
\<close>

theorem RegisterWindow_not_listed:
  "\<exists>s0 s1 s2. constructor clk p = Inr s0 \<and>
     RegisterWindow clk mm wid path s0 = Inr s1 \<and>
     GetWindowList clk s1 = Inr ([], s2)"
proof -
  let ?s0 = "printed INFO clk [''Path: '' @ p]
               \<lparr>bus_id = 0, service_id = 0, window_map = [], world = []\<rparr>"
  obtain s1 where s1: "RegisterWindow clk mm wid path ?s0 = Inr s1" "frame ?s0 s1"
    using RegisterWindow_frame by blast
  then have "window_map s1 = []"
    by (simp add: frame_def)
  then obtain s2 where "GetWindowList clk s1 = Inr ([], s2)"
    using GetWindowList_frame [of clk s1] by auto
  with s1 show ?thesis by simp
qed

text \<open>
  C2: registering again a window that is in the registry overwrites its path with the
  new one. The code does not do this: two registrations of window 7 on a new registrar
  leave the registry empty, and on a registry that holds window 7 with path \<^verbatim>\<open>/a\<close>,
  \<^verbatim>\<open>RegisterWindow(7, "/b")\<close> returns and the stored path is still \<^verbatim>\<open>/a\<close>.
\<close>

theorem RegisterWindow_keeps_old_path:
  "(\<exists>s0 s1 s2. constructor clk p = Inr s0 \<and>
      RegisterWindow clk mm 7 ''/a'' s0 = Inr s1 \<and>
      RegisterWindow clk mm 7 ''/b'' s1 = Inr s2 \<and> window_map s2 = []) \<and>
   (\<exists>s'. RegisterWindow clk mm 7 ''/b''
            (s\<lparr>window_map := [(7, \<lparr>window_id = 7, menu_object_path = ''/a''\<rparr>)]\<rparr>) = Inr s' \<and>
          window_map s' = [(7, \<lparr>window_id = 7, menu_object_path = ''/a''\<rparr>)])"
proof
  let ?s0 = "printed INFO clk [''Path: '' @ p]
               \<lparr>bus_id = 0, service_id = 0, window_map = [], world = []\<rparr>"
  obtain s1 where s1: "RegisterWindow clk mm 7 ''/a'' ?s0 = Inr s1" "frame ?s0 s1"
    using RegisterWindow_frame by blast
  obtain s2 where s2: "RegisterWindow clk mm 7 ''/b'' s1 = Inr s2" "frame s1 s2"
    using RegisterWindow_frame by blast
  have "window_map s2 = []"
    using s1(2) s2(2) by (simp add: frame_def)
  with s1 s2 show "\<exists>s0 s1 s2. constructor clk p = Inr s0 \<and>
      RegisterWindow clk mm 7 ''/a'' s0 = Inr s1 \<and>
      RegisterWindow clk mm 7 ''/b'' s1 = Inr s2 \<and> window_map s2 = []"
    by simp
next
  let ?s = "s\<lparr>window_map := [(7, \<lparr>window_id = 7, menu_object_path = ''/a''\<rparr>)]\<rparr>"
  obtain s' where "RegisterWindow clk mm 7 ''/b'' ?s = Inr s'" "frame ?s s'"
    using RegisterWindow_frame by blast
  then show "\<exists>s'. RegisterWindow clk mm 7 ''/b'' ?s = Inr s' \<and>
          window_map s' = [(7, \<lparr>window_id = 7, menu_object_path = ''/a''\<rparr>)]"
    by (simp add: frame_def)
qed

text \<open>
  C3: for every window identifier and every state of the registrar, registered or not,
  \<^verbatim>\<open>GetMenuForWindow\<close> returns the pair of empty strings.
\<close>

theorem GetMenuForWindow_empty:
  "\<exists>s'. GetMenuForWindow clk wid s = Inr (\<lparr>service = [], menuObjectPath = []\<rparr>, s')"
  by (simp add: GetMenuForWindow_def)

text \<open>
  C4: \<^verbatim>\<open>is_acquired()\<close> is false on a new registrar, false after \<^verbatim>\<open>release()\<close>, and true
  only once both identifiers are non-zero. The first and the last hold (lemmas
  \<open>is_acquired_constructor\<close> and \<open>is_acquired_iff\<close>); the second does not: on a registrar
  that has acquired the bus and its name, \<^verbatim>\<open>release_bus\<close> returns and \<^verbatim>\<open>is_acquired()\<close>
  is still true.
\<close>

theorem is_acquired_after_release:
  "\<exists>s0 s1 s2 s3 s4. constructor clk p = Inr s0 \<and> \<not> is_acquired s0 \<and>
     acquire_bus clk 1 s0 = Inr s1 \<and> \<not> is_acquired s1 \<and>
     on_bus_acquired clk name s1 = Inr s2 \<and>
     on_name_acquired clk name 2 s2 = Inr s3 \<and> is_acquired s3 \<and>
     release_bus clk s3 = Inr s4 \<and> is_acquired s4"
proof -
  obtain s0 where s0: "constructor clk p = Inr s0" "bus_id s0 = 0" "service_id s0 = 0"
    by simp
  obtain s1 where s1: "acquire_bus clk 1 s0 = Inr s1" "bus_id s1 = 1" "service_id s1 = 0"
    using acquire_bus_result [of clk 1 s0] s0 by auto
  obtain s2 where s2: "on_bus_acquired clk name s1 = Inr s2" "bus_id s2 = 1"
    using on_bus_acquired_frame [of clk name s1] s1 by (auto simp: frame_def)
  obtain s3 where s3: "on_name_acquired clk name 2 s2 = Inr s3" "bus_id s3 = 1" "service_id s3 = 2"
    using on_name_acquired_result [of clk name 2 s2] s2 by auto
  obtain s4 where s4: "release_bus clk s3 = Inr s4" "bus_id s4 = 1" "service_id s4 = 2"
    using release_bus_frame [of clk s3] s3 by (auto simp: frame_def)
  have "\<not> is_acquired s0" "\<not> is_acquired s1" "is_acquired s3" "is_acquired s4"
    using s0 s1 s3 s4 by (simp_all add: is_acquired_def)
  then show ?thesis
    using s0(1) s1(1) s2(1) s3(1) s4(1) by blast
qed

text \<open>
  C5: \<^verbatim>\<open>release()\<close> from any state, also twice in a row, never raises and leaves every
  identifier at zero. It never raises (lemma \<open>release_bus_frame\<close>), and on a new
  registrar the identifiers stay zero (lemma \<open>release_bus_new\<close>); but on a registrar
  that has acquired the bus and its name, the identifiers are the same non-zero values
  after one release and after two, and the second release removes the timer source and
  unowns the name a second time.
\<close>

theorem release_bus_keeps_ids:
  "\<exists>s0 s1 s2 s3 s4 s5. constructor clk p = Inr s0 \<and>
     acquire_bus clk 1 s0 = Inr s1 \<and>
     on_bus_acquired clk name s1 = Inr s2 \<and>
     on_name_acquired clk name 2 s2 = Inr s3 \<and>
     release_bus clk s3 = Inr s4 \<and> bus_id s4 = 1 \<and> service_id s4 = 2 \<and>
     release_bus clk s4 = Inr s5 \<and> bus_id s5 = 1 \<and> service_id s5 = 2 \<and>
     world s5 = world s4 @
       [ConsoleLog (log_header WARN (clk (length (world s4)))) ''Releasing bus'',
        SourceRemove 2, BusUnownName 1, Unexport]"
proof -
  obtain s0 where s0: "constructor clk p = Inr s0"
    by simp
  obtain s1 where s1: "acquire_bus clk 1 s0 = Inr s1" "bus_id s1 = 1"
    using acquire_bus_result [of clk 1 s0] by auto
  obtain s2 where s2: "on_bus_acquired clk name s1 = Inr s2" "bus_id s2 = 1"
    using on_bus_acquired_frame [of clk name s1] s1 by (auto simp: frame_def)
  obtain s3 where s3: "on_name_acquired clk name 2 s2 = Inr s3" "bus_id s3 = 1" "service_id s3 = 2"
    using on_name_acquired_result [of clk name 2 s2] s2 by auto
  obtain s4 where s4: "release_bus clk s3 = Inr s4" "bus_id s4 = 1" "service_id s4 = 2"
    using release_bus_frame [of clk s3] s3 by (auto simp: frame_def)
  define s5 where "s5 = s4\<lparr>world := world s4 @
       [ConsoleLog (log_header WARN (clk (length (world s4)))) ''Releasing bus'',
        SourceRemove 2, BusUnownName 1, Unexport]\<rparr>"
  have s5: "release_bus clk s4 = Inr s5"
    using s4(2,3) by (simp add: release_bus_result s5_def)
  have "bus_id s5 = 1" "service_id s5 = 2"
    "world s5 = world s4 @
       [ConsoleLog (log_header WARN (clk (length (world s4)))) ''Releasing bus'',
        SourceRemove 2, BusUnownName 1, Unexport]"
    using s4(2,3) by (simp_all add: s5_def)
  then show ?thesis
    using s0 s1(1) s2(1) s3(1) s4 s5 by blast
qed

text \<open>
  C6: for a window identifier that is in the registry, \<^verbatim>\<open>UnregisterWindow\<close> returns and
  removes exactly that entry: the identifier is absent afterwards, every other identifier
  maps to what it mapped to, the keys are the old keys without this one, in the same
  order, and there is one entry less. The bus identifiers are unchanged.
\<close>

theorem UnregisterWindow_removes:
  assumes "distinct (map fst (window_map s))" and "wid \<in> fst ` set (window_map s)"
  shows "\<exists>s'. UnregisterWindow clk wid s = Inr s' \<and>
           wid \<notin> fst ` set (window_map s') \<and>
           (\<forall>k. k \<noteq> wid \<longrightarrow> map_of (window_map s') k = map_of (window_map s) k) \<and>
           map fst (window_map s') = removeAll wid (map fst (window_map s)) \<and>
           length (window_map s') + 1 = length (window_map s) \<and>
           bus_id s' = bus_id s \<and> service_id s' = service_id s"
  using assms length_delete_present [OF assms]
  by (simp add: UnregisterWindow_def delete_notin_dom delete_keys)

theorem UnregisterWindow_removes_witness:
  "\<exists>s'. UnregisterWindow
          (\<lambda>n. \<lparr>getHours = 12, getMinutes = 0, getSeconds = 0, getMilliseconds = n\<rparr>) 42
          \<lparr>bus_id = 1, service_id = 2,
           window_map = [(42, \<lparr>window_id = 42, menu_object_path = ''/menu/42''\<rparr>),
                         (7, \<lparr>window_id = 7, menu_object_path = ''/menu/7''\<rparr>)],
           world = []\<rparr> = Inr s' \<and>
        42 \<notin> fst ` set (window_map s') \<and>
        map_of (window_map s') 7 = Some \<lparr>window_id = 7, menu_object_path = ''/menu/7''\<rparr> \<and>
        map fst (window_map s') = [7] \<and> length (window_map s') = 1"
proof -
  let ?clk = "\<lambda>n. \<lparr>getHours = 12, getMinutes = 0, getSeconds = 0, getMilliseconds = n\<rparr>"
  let ?s = "\<lparr>bus_id = 1, service_id = 2,
           window_map = [(42, \<lparr>window_id = 42, menu_object_path = ''/menu/42''\<rparr>),
                         (7, \<lparr>window_id = 7, menu_object_path = ''/menu/7''\<rparr>)],
           world = []\<rparr>"
  have keys: "distinct (map fst (window_map ?s))"
    by simp
  have present: "42 \<in> fst ` set (window_map ?s)"
    by simp
  obtain s' where s': "UnregisterWindow ?clk 42 ?s = Inr s'"
      "42 \<notin> fst ` set (window_map s')"
      "\<forall>k. k \<noteq> 42 \<longrightarrow> map_of (window_map s') k = map_of (window_map ?s) k"
      "map fst (window_map s') = removeAll 42 (map fst (window_map ?s))"
      "length (window_map s') + 1 = length (window_map ?s)"
    using UnregisterWindow_removes [OF keys present, of ?clk] by blast
  have "map_of (window_map s') 7 = map_of (window_map ?s) 7"
    using s'(3) by simp
  then have "map_of (window_map s') 7 = Some \<lparr>window_id = 7, menu_object_path = ''/menu/7''\<rparr>"
    by simp
  moreover have "map fst (window_map s') = [7]"
    using s'(4) by simp
  moreover have "length (window_map s') = 1"
    using s'(5) by simp
  ultimately show ?thesis
    using s'(1,2) by (auto intro!: exI [of _ s'])
qed

text \<open>
  C7: for a window identifier that is not in the registry, \<^verbatim>\<open>UnregisterWindow\<close> returns
  (no fault), leaves the registry and the bus identifiers unchanged, and prints two
  lines: the INFO line of every call and the warning \<^verbatim>\<open>Window not registered\<close>.
\<close>

theorem UnregisterWindow_absent:
  assumes "wid \<notin> fst ` set (window_map s)"
  shows "\<exists>s'. UnregisterWindow clk wid s = Inr s' \<and>
           window_map s' = window_map s \<and> bus_id s' = bus_id s \<and> service_id s' = service_id s \<and>
           world s' = world s @
             [ConsoleLog (log_header INFO (clk (length (world s))))
                (''Unregistering window: '' @ number_to_string wid),
              ConsoleLog (log_header WARN (clk (Suc (length (world s)))))
                ''Window not registered'']"
  using assms by (simp add: UnregisterWindow_def)

theorem UnregisterWindow_absent_witness:
  "\<exists>s'. UnregisterWindow
          (\<lambda>n. \<lparr>getHours = 12, getMinutes = 0, getSeconds = 0, getMilliseconds = n\<rparr>) 42
          \<lparr>bus_id = 1, service_id = 2,
           window_map = [(7, \<lparr>window_id = 7, menu_object_path = ''/menu/7''\<rparr>)],
           world = []\<rparr> = Inr s' \<and>
        window_map s' = [(7, \<lparr>window_id = 7, menu_object_path = ''/menu/7''\<rparr>)] \<and>
        world s' = [ConsoleLog ''[INFO: 12:0:0:0]'' ''Unregistering window: 42'',
                    ConsoleLog ''[WARN: 12:0:0:1]'' ''Window not registered'']"
proof -
  let ?clk = "\<lambda>n. \<lparr>getHours = 12, getMinutes = 0, getSeconds = 0, getMilliseconds = n\<rparr>"
  let ?s = "\<lparr>bus_id = 1, service_id = 2,
           window_map = [(7, \<lparr>window_id = 7, menu_object_path = ''/menu/7''\<rparr>)],
           world = []\<rparr>"
  have absent: "42 \<notin> fst ` set (window_map ?s)"
    by simp
  obtain s' where s': "UnregisterWindow ?clk 42 ?s = Inr s'"
      "window_map s' = window_map ?s"
      "world s' = world ?s @
         [ConsoleLog (log_header INFO (?clk (length (world ?s))))
            (''Unregistering window: '' @ number_to_string 42),
          ConsoleLog (log_header WARN (?clk (Suc (length (world ?s)))))
            ''Window not registered'']"
    using UnregisterWindow_absent [OF absent, of ?clk] by blast
  have "window_map s' = [(7, \<lparr>window_id = 7, menu_object_path = ''/menu/7''\<rparr>)]"
    using s'(2) by simp
  moreover have "world s' = [ConsoleLog ''[INFO: 12:0:0:0]'' ''Unregistering window: 42'',
                    ConsoleLog ''[WARN: 12:0:0:1]'' ''Window not registered'']"
    using s'(3) by (simp add: log_header_def number_to_string.simps)
  ultimately show ?thesis
    using s'(1) by (auto intro!: exI [of _ s'])
qed

text \<open>
  C8: \<^verbatim>\<open>dbus_log\<close> always returns; when \<^verbatim>\<open>is_acquired()\<close> is true it emits exactly the
  \<^verbatim>\<open>Log\<close> signal with the three strings, and when it is false the state, its trace
  included, is unchanged. The fields of the registrar are unchanged in both cases.
\<close>

theorem dbus_log_iff_acquired:
  "\<exists>s'. dbus_log ty timestamp message s = Inr s' \<and> frame s s' \<and>
     (is_acquired s \<longrightarrow> world s' = world s @ [EmitSignal ''Log'' [ty, timestamp, message]]) \<and>
     (\<not> is_acquired s \<longrightarrow> s' = s)"
  by (simp add: dbus_log_def emit_signal_def frame_def)

theorem dbus_log_iff_acquired_witness:
  "(\<exists>s'. dbus_log ''INFO'' ''12:0:0:0'' ''hello''
           \<lparr>bus_id = 1, service_id = 2, window_map = [], world = []\<rparr> = Inr s' \<and>
         world s' = [EmitSignal ''Log'' [''INFO'', ''12:0:0:0'', ''hello'']]) \<and>
   dbus_log ''INFO'' ''12:0:0:0'' ''hello''
     \<lparr>bus_id = 1, service_id = 0, window_map = [], world = []\<rparr> =
   Inr \<lparr>bus_id = 1, service_id = 0, window_map = [], world = []\<rparr>"
  using dbus_log_iff_acquired
    [of "''INFO''" "''12:0:0:0''" "''hello''"
        "\<lparr>bus_id = 1, service_id = 2, window_map = [], world = []\<rparr>"]
    dbus_log_iff_acquired
    [of "''INFO''" "''12:0:0:0''" "''hello''"
        "\<lparr>bus_id = 1, service_id = 0, window_map = [], world = []\<rparr>"]
  by (auto simp: is_acquired_def)




text \<open>
  C10: from every state and for every window identifier, \<^verbatim>\<open>GetWindowList\<close> and
  \<^verbatim>\<open>GetMenuForWindow\<close> return and leave the window registry and the two bus identifiers
  as they were.
\<close>

theorem queries_read_only:
  "(\<exists>ids s'. GetWindowList clk s = Inr (ids, s') \<and>
      window_map s' = window_map s \<and> bus_id s' = bus_id s \<and> service_id s' = service_id s) \<and>
   (\<exists>m s'. GetMenuForWindow clk wid s = Inr (m, s') \<and>
      window_map s' = window_map s \<and> bus_id s' = bus_id s \<and> service_id s' = service_id s)"
proof
  obtain s' where "GetWindowList clk s = Inr (map fst (window_map s), s')" "frame s s'"
    using GetWindowList_frame by blast
  then show "\<exists>ids s'. GetWindowList clk s = Inr (ids, s') \<and>
      window_map s' = window_map s \<and> bus_id s' = bus_id s \<and> service_id s' = service_id s"
    by (auto simp: frame_def)
next
  show "\<exists>m s'. GetMenuForWindow clk wid s = Inr (m, s') \<and>
      window_map s' = window_map s \<and> bus_id s' = bus_id s \<and> service_id s' = service_id s"
    by (simp add: GetMenuForWindow_def)
qed

end
